theory Spec2Isabelle
  imports Complex_Main
begin

section \<open>Python values shared by both modules\<close>

text \<open>
  Exceptions are values: every \<^verbatim>\<open>raise\<close> of the source, and every exception of an
  interpreter primitive that the modelled code can trigger (a missing key, an index out
  of range, \<^verbatim>\<open>len\<close> or iteration of an object that has none), is a constructor here.
\<close>

datatype error = TypeError | ValueError | IndexError | KeyError | RuntimeError

text \<open>
  A \<^verbatim>\<open>dict\<close> with string keys is an association list in insertion order with pairwise
  distinct keys.  \<^verbatim>\<open>d[k]\<close> raises \<^verbatim>\<open>KeyError\<close> on a missing key; \<^verbatim>\<open>d[k] = v\<close> on a
  present key replaces the value in place and keeps the position.
\<close>

type_synonym 'v pydict = "(string \<times> 'v) list"

definition dict_has :: "'v pydict \<Rightarrow> string \<Rightarrow> bool" where
  "dict_has d k = (k \<in> set (map fst d))"

definition dict_get :: "'v pydict \<Rightarrow> string \<Rightarrow> error + 'v" where
  "dict_get d k = (case map_of d k of None \<Rightarrow> Inl KeyError | Some v \<Rightarrow> Inr v)"

fun dict_set :: "'v pydict \<Rightarrow> string \<Rightarrow> 'v \<Rightarrow> 'v pydict" where
  "dict_set [] k v = [(k, v)]"
| "dict_set ((k', v') # d) k v = (if k' = k then (k, v) # d else (k', v') # dict_set d k v)"

section \<open>The PINN solver interface (\<^verbatim>\<open>pina/solvers/pinns/basepinn.py\<close>)\<close>

text \<open>
  The problem object as the solver reads it: the equation of each named condition,
  whether the problem is an \<^verbatim>\<open>InverseProblem\<close>, its unknown parameters (each a tensor,
  here the list of its entries) and the declared range \<^verbatim>\<open>range_[v] = (low, high)\<close> (the field \<open>range'\<close>) of
  each parameter.
\<close>

record 'eq problem =
  conditions :: "'eq pydict"
  is_inverse :: bool
  unknown_parameters :: "real list pydict"
  range' :: "(real \<times> real) pydict"

text \<open>
  \<^verbatim>\<open>self._clamp_params\<close> is bound in \<^verbatim>\<open>__init__\<close> either to the method
  \<^verbatim>\<open>_clamp_inverse_problem_params\<close> or to \<^verbatim>\<open>lambda: None\<close>.
\<close>

datatype clamp_hook = ClampInverse | ClampNoop

text \<open>
  The calls a step makes to its collaborators, in order: the call of the clamp hook and
  the call of the logger \<^verbatim>\<open>self.log(key, value, ...)\<close>.
\<close>

datatype event = ClampCall | LogCall string real

text \<open>
  The solver.  \<^verbatim>\<open>self._params\<close> is the problem's own dictionary of parameters (the
  same object, so clamping in place is seen by both); it is \<^verbatim>\<open>None\<close> for a problem
  that is not an inverse problem.
\<close>

record 'eq pinn =
  problem :: "'eq problem"
  params :: "real list pydict option"
  clamp_params :: clamp_hook
  trace :: "event list"

definition PINNInterface_init :: "'eq problem \<Rightarrow> 'eq pinn" where
  "PINNInterface_init prob =
     (if is_inverse prob
      then \<lparr>problem = prob, params = Some (unknown_parameters prob),
            clamp_params = ClampInverse, trace = []\<rparr>
      else \<lparr>problem = prob, params = None, clamp_params = ClampNoop, trace = []\<rparr>)"

text \<open>\<^verbatim>\<open>Tensor.clamp_(min, max)\<close> on one entry: \<^verbatim>\<open>min(max(x, min), max)\<close>.\<close>

definition clamp :: "real \<Rightarrow> real \<Rightarrow> real \<Rightarrow> real" where
  "clamp lo hi x = min (max x lo) hi"

text \<open>
  \<^verbatim>\<open>for v in self._params: self._params[v].data.clamp_(range_[v][0], range_[v][1])\<close>.
  The loop runs over the keys; a key with no declared range raises \<^verbatim>\<open>KeyError\<close> and
  leaves the parameters clamped so far as they are.
\<close>

fun clamp_loop ::
  "string list \<Rightarrow> (real \<times> real) pydict \<Rightarrow> real list pydict \<Rightarrow> (error + unit) \<times> real list pydict"
where
  "clamp_loop [] rng ps = (Inr (), ps)"
| "clamp_loop (v # vs) rng ps =
     (case dict_get ps v of
        Inl e \<Rightarrow> (Inl e, ps)
      | Inr val \<Rightarrow>
          (case dict_get rng v of
             Inl e \<Rightarrow> (Inl e, ps)
           | Inr (lo, hi) \<Rightarrow> clamp_loop vs rng (dict_set ps v (map (clamp lo hi) val))))"

definition clamp_inverse_problem_params :: "'eq pinn \<Rightarrow> (error + unit) \<times> 'eq pinn" where
  "clamp_inverse_problem_params s =
     (case params s of
        None \<Rightarrow> (Inl TypeError, s)
      | Some ps \<Rightarrow>
          (case clamp_loop (map fst ps) (range' (problem s)) ps of
             (r, ps') \<Rightarrow> (r, s\<lparr>params := Some ps'\<rparr>)))"

text \<open>The call \<^verbatim>\<open>self._clamp_params()\<close>.\<close>

definition call_clamp_params :: "'eq pinn \<Rightarrow> (error + unit) \<times> 'eq pinn" where
  "call_clamp_params s =
     (let s1 = s\<lparr>trace := trace s @ [ClampCall]\<rparr> in
      case clamp_params s1 of
        ClampNoop \<Rightarrow> (Inr (), s1)
      | ClampInverse \<Rightarrow> clamp_inverse_problem_params s1)"

definition log :: "string \<Rightarrow> real \<Rightarrow> 'eq pinn \<Rightarrow> 'eq pinn" where
  "log key val s = s\<lparr>trace := trace s @ [LogCall key val]\<rparr>"

text \<open>Python's \<^verbatim>\<open>sum(xs)\<close>: start at 0, add from the left.\<close>

definition py_sum :: "real list \<Rightarrow> real" where
  "py_sum xs = foldl (+) 0 xs"

text \<open>
  The loop over the batch, shared by both steps.  \<^verbatim>\<open>loss_data\<close> and the abstract
  \<^verbatim>\<open>loss_phys\<close> are parameters; each branch appends the loss to \<^verbatim>\<open>condition_loss\<close>,
  and the statement after the \<^verbatim>\<open>if\<close> appends it again.
\<close>

fun condition_loop ::
  "('p \<Rightarrow> 'p \<Rightarrow> real) \<Rightarrow> ('p \<Rightarrow> 'eq \<Rightarrow> real) \<Rightarrow> 'eq pydict \<Rightarrow>
   (string \<times> 'p pydict) list \<Rightarrow> real list \<Rightarrow> error + real list"
where
  "condition_loop loss_data loss_phys conds [] condition_loss = Inr condition_loss"
| "condition_loop loss_data loss_phys conds ((condition_name, points) # batch) condition_loss =
     (if dict_has points ''output_points'' then
        (case dict_get points ''input_points'' of
           Inl e \<Rightarrow> Inl e
         | Inr input_pts \<Rightarrow>
             (case dict_get points ''output_points'' of
                Inl e \<Rightarrow> Inl e
              | Inr output_pts \<Rightarrow>
                  (let loss' = loss_data input_pts output_pts;
                       condition_loss1 = condition_loss @ [loss'];
                       condition_loss2 = condition_loss1 @ [loss']
                   in condition_loop loss_data loss_phys conds batch condition_loss2)))
      else
        (case dict_get points ''input_points'' of
           Inl e \<Rightarrow> Inl e
         | Inr input_pts \<Rightarrow>
             (case dict_get conds condition_name of
                Inl e \<Rightarrow> Inl e
              | Inr equation \<Rightarrow>
                  (let loss' = loss_phys input_pts equation;
                       condition_loss1 = condition_loss @ [loss'];
                       condition_loss2 = condition_loss1 @ [loss']
                   in condition_loop loss_data loss_phys conds batch condition_loss2))))"

text \<open>\<^verbatim>\<open>training_step\<close> returns the loss; an exception leaves the solver as it was.\<close>

definition training_step ::
  "('p \<Rightarrow> 'p \<Rightarrow> real) \<Rightarrow> ('p \<Rightarrow> 'eq \<Rightarrow> real) \<Rightarrow> 'eq pinn \<Rightarrow>
   (string \<times> 'p pydict) list \<Rightarrow> (error + real) \<times> 'eq pinn"
where
  "training_step loss_data loss_phys s batch =
     (case condition_loop loss_data loss_phys (conditions (problem s)) batch [] of
        Inl e \<Rightarrow> (Inl e, s)
      | Inr condition_loss \<Rightarrow>
          (case call_clamp_params s of
             (Inl e, s1) \<Rightarrow> (Inl e, s1)
           | (Inr _, s1) \<Rightarrow>
               (let loss = py_sum condition_loss
                in (Inr loss, log ''train_loss'' loss s1))))"

text \<open>\<^verbatim>\<open>validation_step\<close> has no \<^verbatim>\<open>return\<close>: its value is \<^verbatim>\<open>None\<close>.\<close>

definition validation_step ::
  "('p \<Rightarrow> 'p \<Rightarrow> real) \<Rightarrow> ('p \<Rightarrow> 'eq \<Rightarrow> real) \<Rightarrow> 'eq pinn \<Rightarrow>
   (string \<times> 'p pydict) list \<Rightarrow> (error + unit) \<times> 'eq pinn"
where
  "validation_step loss_data loss_phys s batch =
     (case condition_loop loss_data loss_phys (conditions (problem s)) batch [] of
        Inl e \<Rightarrow> (Inl e, s)
      | Inr condition_loss \<Rightarrow>
          (let loss = py_sum condition_loss
           in (Inr (), log ''val_loss'' loss s)))"



text \<open>The per-condition losses of a batch, one for each condition, in batch order.\<close>

fun spec_losses ::
  "('p \<Rightarrow> 'p \<Rightarrow> real) \<Rightarrow> ('p \<Rightarrow> 'eq \<Rightarrow> real) \<Rightarrow> 'eq pydict \<Rightarrow>
   (string \<times> 'p pydict) list \<Rightarrow> error + real list"
where
  "spec_losses loss_data loss_phys conds [] = Inr []"
| "spec_losses loss_data loss_phys conds ((condition_name, points) # batch) =
     (case (if dict_has points ''output_points'' then
              (case dict_get points ''input_points'' of
                 Inl e \<Rightarrow> Inl e
               | Inr input_pts \<Rightarrow>
                   (case dict_get points ''output_points'' of
                      Inl e \<Rightarrow> Inl e
                    | Inr output_pts \<Rightarrow> Inr (loss_data input_pts output_pts)))
            else
              (case dict_get points ''input_points'' of
                 Inl e \<Rightarrow> Inl e
               | Inr input_pts \<Rightarrow>
                   (case dict_get conds condition_name of
                      Inl e \<Rightarrow> Inl e
                    | Inr equation \<Rightarrow> Inr (loss_phys input_pts equation)))) of
        Inl e \<Rightarrow> Inl e
      | Inr l \<Rightarrow>
          (case spec_losses loss_data loss_phys conds batch of
             Inl e \<Rightarrow> Inl e
           | Inr ls \<Rightarrow> Inr (l # ls)))"

section \<open>Graph construction (\<^verbatim>\<open>pina/graph.py\<close>)\<close>

subsection \<open>Tensors and the Python values the constructors receive\<close>

text \<open>
  A tensor is its shape and its entries in row-major order; the entries are exact real
  numbers (rounding of floating-point arithmetic is not modelled), and an integer tensor
  such as an edge index holds integer-valued entries.  A well-formed tensor has as many
  entries as its shape says.
\<close>

datatype tensor = Tensor (shape: "nat list") (elems: "real list")

definition ndim :: "tensor \<Rightarrow> nat" where
  "ndim t = length (shape t)"


text \<open>\<^verbatim>\<open>t[i]\<close> for \<open>i < t.shape[0]\<close>, and \<^verbatim>\<open>[t[i] for i in range(t.shape[0])]\<close>.\<close>

definition tensor_index :: "tensor \<Rightarrow> nat \<Rightarrow> tensor" where
  "tensor_index t i =
     (let m = prod_list (tl (shape t))
      in Tensor (tl (shape t)) (take m (drop (i * m) (elems t))))"

definition tensor_rows :: "tensor \<Rightarrow> tensor list" where
  "tensor_rows t = map (tensor_index t) [0..<hd (shape t)]"

text \<open>
  The values that \<^verbatim>\<open>x\<close>, \<^verbatim>\<open>pos\<close>, \<^verbatim>\<open>edge_index\<close>, \<^verbatim>\<open>edge_attr\<close>, \<^verbatim>\<open>t\<close> and the
  entries of \<^verbatim>\<open>additional_params\<close> range over: \<^verbatim>\<open>None\<close>, a number, a tensor, a labeled
  tensor, a list, a tuple.

  Modelled from the spec: \<^verbatim>\<open>LabelTensor\<close> (its module, \<^verbatim>\<open>pina/label_tensor.py\<close>, is not
  among the sources) is ``a labeled tensor type carrying a plain-tensor view'': a tensor
  (\<^verbatim>\<open>isinstance(v, torch.Tensor)\<close> holds, indexing and iteration yield labeled tensors)
  whose \<^verbatim>\<open>.tensor\<close> is the plain tensor.  The labels themselves are not represented.
\<close>

datatype pyval =
    PNone
  | PNum real
  | PTensor tensor
  | PLabelTensor tensor
  | PList "pyval list"
  | PTuple "pyval list"

text \<open>\<^verbatim>\<open>isinstance(v, list)\<close> and \<^verbatim>\<open>isinstance(v, (torch.Tensor, LabelTensor))\<close>.\<close>

fun is_list :: "pyval \<Rightarrow> bool" where
  "is_list (PList xs) = True"
| "is_list v = False"

fun is_tensor :: "pyval \<Rightarrow> bool" where
  "is_tensor (PTensor t) = True"
| "is_tensor (PLabelTensor t) = True"
| "is_tensor v = False"

text \<open>
  \<^verbatim>\<open>len(v)\<close>, iteration over \<^verbatim>\<open>v\<close> (as \<^verbatim>\<open>zip\<close> and a comprehension do) and \<^verbatim>\<open>v[i]\<close>
  for an index \<open>i \<ge> 0\<close>.  A tensor of dimension 0 has no length, cannot be iterated and
  cannot be indexed.
\<close>

fun py_len :: "pyval \<Rightarrow> error + nat" where
  "py_len (PList xs) = Inr (length xs)"
| "py_len (PTuple xs) = Inr (length xs)"
| "py_len (PTensor t) = (if ndim t = 0 then Inl TypeError else Inr (hd (shape t)))"
| "py_len (PLabelTensor t) = (if ndim t = 0 then Inl TypeError else Inr (hd (shape t)))"
| "py_len v = Inl TypeError"

fun py_iter :: "pyval \<Rightarrow> error + pyval list" where
  "py_iter (PList xs) = Inr xs"
| "py_iter (PTuple xs) = Inr xs"
| "py_iter (PTensor t) =
     (if ndim t = 0 then Inl TypeError else Inr (map PTensor (tensor_rows t)))"
| "py_iter (PLabelTensor t) =
     (if ndim t = 0 then Inl TypeError else Inr (map PLabelTensor (tensor_rows t)))"
| "py_iter v = Inl TypeError"

fun py_getitem :: "pyval \<Rightarrow> nat \<Rightarrow> error + pyval" where
  "py_getitem (PList xs) i = (if i < length xs then Inr (xs ! i) else Inl IndexError)"
| "py_getitem (PTuple xs) i = (if i < length xs then Inr (xs ! i) else Inl IndexError)"
| "py_getitem (PTensor t) i =
     (if ndim t = 0 then Inl IndexError
      else if i < hd (shape t) then Inr (PTensor (tensor_index t i)) else Inl IndexError)"
| "py_getitem (PLabelTensor t) i =
     (if ndim t = 0 then Inl IndexError
      else if i < hd (shape t) then Inr (PLabelTensor (tensor_index t i)) else Inl IndexError)"
| "py_getitem v i = Inl TypeError"

text \<open>A comprehension \<^verbatim>\<open>[f(e) for e in es]\<close> whose body may raise.\<close>

fun map_err :: "('a \<Rightarrow> error + 'b) \<Rightarrow> 'a list \<Rightarrow> error + 'b list" where
  "map_err f [] = Inr []"
| "map_err f (e # es) =
     (case f e of
        Inl err \<Rightarrow> Inl err
      | Inr y \<Rightarrow> (case map_err f es of Inl err \<Rightarrow> Inl err | Inr ys \<Rightarrow> Inr (y # ys)))"

subsection \<open>The world: dictionaries that callers share, warnings, standard output\<close>

text \<open>
  \<^verbatim>\<open>additional_params\<close> is a dictionary object that the caller keeps a reference to and
  that \<^verbatim>\<open>_check_additional_params\<close> assigns into.  Dictionaries therefore live in a
  store, a list addressed by position; a reference is an address below the length of
  the store, and a new dictionary is appended.  The world also records the messages
  passed to \<^verbatim>\<open>logging.warning\<close> and the numbers printed.
\<close>

record world =
  heap :: "pyval pydict list"
  warned :: "string list"
  printed :: "nat list"

text \<open>The argument \<^verbatim>\<open>additional_params\<close>: \<^verbatim>\<open>None\<close>, a dictionary, or anything else.\<close>

datatype params_arg = NoParams | DictRef nat | NotADict pyval

text \<open>One graph record, \<^verbatim>\<open>torch_geometric.data.Data(x, pos, edge_index[, edge_attr], **extra)\<close>.\<close>

datatype data =
  Data (d_x: pyval) (d_pos: pyval) (d_edge_index: pyval) (d_edge_attr: "pyval option")
       (d_extra: "pyval pydict")

subsection \<open>The helpers of \<^verbatim>\<open>Graph\<close>\<close>

text \<open>\<^verbatim>\<open>_check_input_consistency\<close>: a 3-D tensor becomes the list of its 2-D slices.\<close>

fun split3d :: "pyval \<Rightarrow> pyval" where
  "split3d (PTensor t) =
     (if ndim t = 3 then PList (map PTensor (tensor_rows t)) else PTensor t)"
| "split3d (PLabelTensor t) =
     (if ndim t = 3 then PList (map PLabelTensor (tensor_rows t)) else PLabelTensor t)"
| "split3d v = v"

definition check_input_consistency :: "pyval \<Rightarrow> pyval \<Rightarrow> pyval \<Rightarrow> pyval \<times> pyval \<times> pyval" where
  "check_input_consistency x pos edge_index = (split3d x, split3d pos, split3d edge_index)"

text \<open>\<^verbatim>\<open>_check_len_consistency\<close>.\<close>

definition check_len_consistency :: "pyval \<Rightarrow> pyval \<Rightarrow> error + nat" where
  "check_len_consistency x pos =
     (if is_list x \<and> is_list pos then
        (case (x, pos) of
           (PList xs, PList ps) \<Rightarrow>
             if length xs \<noteq> length ps then Inl ValueError
             else Inr (max (length xs) (length ps))
         | _ \<Rightarrow> Inr 1)
      else if is_list x \<and> \<not> is_list pos then
        (case x of PList xs \<Rightarrow> Inr (length xs) | _ \<Rightarrow> Inr 1)
      else if \<not> is_list x \<and> is_list pos then
        (case pos of PList ps \<Rightarrow> Inr (length ps) | _ \<Rightarrow> Inr 1)
      else Inr 1)"

text \<open>
  \<^verbatim>\<open>_check_additional_params\<close>, one entry: the list to store under the key, or nothing
  when the entry is left as it is.  The 3-D and 2-D cases are an \<^verbatim>\<open>if\<close>/\<^verbatim>\<open>elif\<close>, the
  1-D case a separate \<^verbatim>\<open>if\<close>; a tensor of any other dimension is left alone.
\<close>

definition expand_tensor :: "nat \<Rightarrow> (tensor \<Rightarrow> pyval) \<Rightarrow> tensor \<Rightarrow> pyval option" where
  "expand_tensor data_len wrap val =
     (let r = (if ndim val = 3 then Some (PList (map wrap (tensor_rows val)))
               else if ndim val = 2 then Some (PList (replicate data_len (wrap val)))
               else None)
      in if ndim val = 1 then
           (if hd (shape val) = data_len then Some (PList (map wrap (tensor_rows val)))
            else Some (PList (replicate data_len (wrap val))))
         else r)"

fun expand_param :: "nat \<Rightarrow> pyval \<Rightarrow> error + pyval option" where
  "expand_param data_len (PTensor val) = Inr (expand_tensor data_len PTensor val)"
| "expand_param data_len (PLabelTensor val) = Inr (expand_tensor data_len PLabelTensor val)"
| "expand_param data_len (PList xs) = Inr None"
| "expand_param data_len v = Inl TypeError"

text \<open>
  The loop \<^verbatim>\<open>for param, val in additional_params.items()\<close> over the dictionary at
  address \<open>a\<close>: each assignment \<^verbatim>\<open>additional_params[param] = ...\<close> writes into that
  dictionary in the store.  A \<^verbatim>\<open>TypeError\<close> stops the loop and keeps the writes made so
  far.
\<close>

fun expand_loop ::
  "nat \<Rightarrow> nat \<Rightarrow> pyval pydict \<Rightarrow> pyval pydict list \<Rightarrow> (error + unit) \<times> pyval pydict list"
where
  "expand_loop a data_len [] h = (Inr (), h)"
| "expand_loop a data_len ((param, val) # items) h =
     (case expand_param data_len val of
        Inl e \<Rightarrow> (Inl e, h)
      | Inr None \<Rightarrow> expand_loop a data_len items h
      | Inr (Some v) \<Rightarrow> expand_loop a data_len items (h[a := dict_set (h ! a) param v]))"

text \<open>
  \<^verbatim>\<open>_check_additional_params\<close> returns the dictionary it was given, or a new empty one
  for \<^verbatim>\<open>None\<close>; the result is the address of that dictionary.
\<close>

fun check_additional_params :: "params_arg \<Rightarrow> nat \<Rightarrow> world \<Rightarrow> (error + nat) \<times> world" where
  "check_additional_params NoParams data_len w =
     (Inr (length (heap w)), w\<lparr>heap := heap w @ [[]]\<rparr>)"
| "check_additional_params (NotADict v) data_len w = (Inl TypeError, w)"
| "check_additional_params (DictRef a) data_len w =
     (case expand_loop a data_len (heap w ! a) (heap w) of
        (Inl e, h) \<Rightarrow> (Inl e, w\<lparr>heap := h\<rparr>)
      | (Inr u, h) \<Rightarrow> (Inr a, w\<lparr>heap := h\<rparr>))"

text \<open>
  \<^verbatim>\<open>_check_and_build_edge_attr\<close>.  \<open>build\<close> is \<^verbatim>\<open>self._build_edge_attr\<close>, the static
  default or the caller's function.  With no \<^verbatim>\<open>edge_attr\<close> and no request to build the
  method falls off its end and returns \<^verbatim>\<open>None\<close>.
\<close>

definition check_and_build_edge_attr ::
  "(pyval \<Rightarrow> pyval \<Rightarrow> pyval \<Rightarrow> error + pyval) \<Rightarrow> pyval \<Rightarrow> bool \<Rightarrow> nat \<Rightarrow> pyval \<Rightarrow> pyval \<Rightarrow> pyval \<Rightarrow>
   world \<Rightarrow> (error + pyval list option) \<times> world"
where
  "check_and_build_edge_attr build edge_attr build_edge_attr data_len edge_index pos x w =
     (if edge_attr \<noteq> PNone then
        (let w1 = (if build_edge_attr
                   then w\<lparr>warned := warned w @
                          [''edge_attr is not None. build_edge_attr will not be considered.'']\<rparr>
                   else w)
         in case (if is_list edge_attr then
                    (case py_len edge_attr of
                       Inl e \<Rightarrow> Inl e
                     | Inr n \<Rightarrow> if n \<noteq> data_len then Inl ValueError else Inr ())
                  else Inr ()) of
              Inl e \<Rightarrow> (Inl e, w1)
            | Inr u \<Rightarrow> (Inr (Some (replicate data_len edge_attr)), w1))
      else if build_edge_attr then
        (case py_iter pos of
           Inl e \<Rightarrow> (Inl e, w)
         | Inr ps \<Rightarrow>
             (case py_iter edge_index of
                Inl e \<Rightarrow> (Inl e, w)
              | Inr es \<Rightarrow>
                  (case map_err (\<lambda>(pos', edge_index'). build x pos' edge_index') (zip ps es) of
                     Inl e \<Rightarrow> (Inl e, w)
                   | Inr attrs \<Rightarrow> (Inr (Some attrs), w))))
      else (Inr None, w))"

text \<open>
  \<^verbatim>\<open>_build_graph_list\<close>.  \<open>add_params_local\<close> is the comprehension
  \<^verbatim>\<open>{k: v[i] for k, v in additional_params.items()}\<close>.  A key of it that repeats a
  keyword already passed to \<^verbatim>\<open>Data\<close> makes the call raise \<^verbatim>\<open>TypeError\<close>.
\<close>

fun add_params_local :: "pyval pydict \<Rightarrow> nat \<Rightarrow> error + pyval pydict" where
  "add_params_local [] i = Inr []"
| "add_params_local ((k, v) # items) i =
     (case py_getitem v i of
        Inl e \<Rightarrow> Inl e
      | Inr vi \<Rightarrow>
          (case add_params_local items i of
             Inl e \<Rightarrow> Inl e
           | Inr d \<Rightarrow> Inr ((k, vi) # d)))"

fun unwrap_label :: "pyval \<Rightarrow> pyval" where
  "unwrap_label (PLabelTensor t) = PTensor t"
| "unwrap_label v = v"

definition keyword_clash :: "string list \<Rightarrow> pyval pydict \<Rightarrow> bool" where
  "keyword_clash kws d = (\<exists>k \<in> set (map fst d). k \<in> set kws)"

fun graph_loop ::
  "nat \<Rightarrow> (pyval \<times> pyval \<times> pyval) list \<Rightarrow> pyval list option \<Rightarrow> pyval pydict \<Rightarrow> data list \<Rightarrow>
   error + data list"
where
  "graph_loop i [] edge_attr additional_params acc = Inr acc"
| "graph_loop i ((x', pos', edge_index') # rest) edge_attr additional_params acc =
     (let x'' = unwrap_label x' in
      case add_params_local additional_params i of
        Inl e \<Rightarrow> Inl e
      | Inr local \<Rightarrow>
          (case edge_attr of
             Some attrs \<Rightarrow>
               if \<not> i < length attrs then Inl IndexError
               else if keyword_clash [''x'', ''pos'', ''edge_index'', ''edge_attr''] local
               then Inl TypeError
               else graph_loop (Suc i) rest edge_attr additional_params
                      (acc @ [Data x'' pos' edge_index' (Some (attrs ! i)) local])
           | None \<Rightarrow>
               if keyword_clash [''x'', ''pos'', ''edge_index''] local then Inl TypeError
               else graph_loop (Suc i) rest edge_attr additional_params
                      (acc @ [Data x'' pos' edge_index' None local])))"

definition build_graph_list ::
  "pyval \<Rightarrow> pyval \<Rightarrow> pyval \<Rightarrow> pyval list option \<Rightarrow> pyval pydict \<Rightarrow> error + data list"
where
  "build_graph_list x pos edge_index edge_attr additional_params =
     (case py_iter x of
        Inl e \<Rightarrow> Inl e
      | Inr xs \<Rightarrow>
          (case py_iter pos of
             Inl e \<Rightarrow> Inl e
           | Inr ps \<Rightarrow>
               (case py_iter edge_index of
                  Inl e \<Rightarrow> Inl e
                | Inr es \<Rightarrow> graph_loop 0 (zip xs (zip ps es)) edge_attr additional_params [])))"

text \<open>
  The \<^verbatim>\<open>if\<close>/\<^verbatim>\<open>elif\<close> chain of \<^verbatim>\<open>Graph.__init__\<close> that prepares the three internal
  lists.  Its last arm raises only when neither \<^verbatim>\<open>x\<close> nor \<^verbatim>\<open>pos\<close> is a list; every
  other combination falls through with the values unchanged.
\<close>

definition prepare_lists ::
  "pyval \<Rightarrow> pyval \<Rightarrow> pyval \<Rightarrow> nat \<Rightarrow> error + pyval \<times> pyval \<times> pyval"
where
  "prepare_lists x pos edge_index data_len =
     (if is_list x \<and> is_tensor pos then
        Inr (x, PList (replicate data_len pos), PList (replicate data_len edge_index))
      else if is_tensor x \<and> is_tensor pos then
        Inr (PList [x], PList [pos], PList [edge_index])
      else if is_tensor x \<and> is_list pos then
        Inr (PList (replicate data_len x), pos, edge_index)
      else if \<not> is_list x \<and> \<not> is_list pos then Inl TypeError
      else Inr (x, pos, edge_index))"

text \<open>The step \<^verbatim>\<open>if undirected: ...\<close>; \<^verbatim>\<open>to_undirected\<close> belongs to torch_geometric.\<close>

definition make_undirected :: "(pyval \<Rightarrow> error + pyval) \<Rightarrow> bool \<Rightarrow> pyval \<Rightarrow> error + pyval" where
  "make_undirected to_undirected undirected edge_index =
     (if undirected then
        (case edge_index of
           PList es \<Rightarrow>
             (case map_err to_undirected es of Inl e \<Rightarrow> Inl e | Inr es' \<Rightarrow> Inr (PList es'))
         | _ \<Rightarrow> to_undirected edge_index)
      else Inr edge_index)"

subsection \<open>\<^verbatim>\<open>Graph.__init__\<close>\<close>

text \<open>
  The constructor.  Its first two arguments stand for code outside the sources:
  \<^verbatim>\<open>to_undirected\<close> of torch_geometric, and the default static method
  \<^verbatim>\<open>_build_edge_attr\<close>, which is tensor arithmetic of torch.
  \<open>custom_build_edge_attr\<close> is \<open>Some f\<close> when \<^verbatim>\<open>inspect.isfunction\<close> holds of the
  argument.  The result is \<^verbatim>\<open>self.data\<close>, or the exception raised, and the world.
\<close>

definition Graph_init ::
  "(pyval \<Rightarrow> error + pyval) \<Rightarrow> (pyval \<Rightarrow> pyval \<Rightarrow> pyval \<Rightarrow> error + pyval) \<Rightarrow>
   pyval \<Rightarrow> pyval \<Rightarrow> pyval \<Rightarrow> pyval \<Rightarrow> bool \<Rightarrow> bool \<Rightarrow>
   (pyval \<Rightarrow> pyval \<Rightarrow> pyval \<Rightarrow> error + pyval) option \<Rightarrow> params_arg \<Rightarrow> world \<Rightarrow>
   (error + data list) \<times> world"
where
  "Graph_init to_undirected default_build_edge_attr
      x pos edge_index edge_attr build_edge_attr undirected custom_build_edge_attr
      additional_params w =
     (case check_input_consistency x pos edge_index of
        (x1, pos1, edge_index1) \<Rightarrow>
     (case check_len_consistency x1 pos1 of
        Inl e \<Rightarrow> (Inl e, w)
      | Inr data_len \<Rightarrow>
     (let build = (case custom_build_edge_attr of
                     Some f \<Rightarrow> f
                   | None \<Rightarrow> default_build_edge_attr) in
      case check_additional_params additional_params data_len w of
        (Inl e, w1) \<Rightarrow> (Inl e, w1)
      | (Inr ap, w1) \<Rightarrow>
     (case make_undirected to_undirected undirected edge_index1 of
        Inl e \<Rightarrow> (Inl e, w1)
      | Inr edge_index2 \<Rightarrow>
     (case prepare_lists x1 pos1 edge_index2 data_len of
        Inl e \<Rightarrow> (Inl e, w1)
      | Inr (x3, pos3, edge_index3) \<Rightarrow>
     (case check_and_build_edge_attr build edge_attr build_edge_attr data_len
             edge_index3 pos3 x3 w1 of
        (Inl e, w2) \<Rightarrow> (Inl e, w2)
      | (Inr edge_attr', w2) \<Rightarrow>
     (case build_graph_list x3 pos3 edge_index3 edge_attr' (heap w2 ! ap) of
        Inl e \<Rightarrow> (Inl e, w2)
      | Inr graphs \<Rightarrow> (Inr graphs, w2))))))))"

subsection \<open>The topology builders\<close>

text \<open>
  \<^verbatim>\<open>torch.cdist(points, points, p=2)\<close>: the Euclidean distance between every two rows
  of a matrix of points (of every matrix of a batch, when the tensor has more than two
  dimensions).  \<open>row_dist e M a b\<close> is the distance between the rows of \<open>M\<close> entries
  that start at the offsets \<open>a\<close> and \<open>b\<close> of \<open>e\<close>.  A tensor of fewer than two
  dimensions is rejected.
\<close>

definition row_dist :: "real list \<Rightarrow> nat \<Rightarrow> nat \<Rightarrow> nat \<Rightarrow> real" where
  "row_dist e M a b = sqrt (sum_list (map (\<lambda>m. (e ! (a + m) - e ! (b + m))\<^sup>2) [0..<M]))"

definition cdist :: "tensor \<Rightarrow> error + tensor" where
  "cdist points =
     (if ndim points < 2 then Inl RuntimeError
      else
        (let P = shape points ! (ndim points - 2);
             M = last (shape points);
             B = prod_list (take (ndim points - 2) (shape points))
         in Inr (Tensor (butlast (shape points) @ [P])
                   (map (\<lambda>q. row_dist (elems points) M
                                ((q div (P * P)) * (P * M) + ((q mod (P * P)) div P) * M)
                                ((q div (P * P)) * (P * M) + (q mod P) * M))
                        [0..<B * P * P]))))"

text \<open>
  The multi-index of the entry at position \<open>q\<close> of a tensor of the given shape, as
  \<^verbatim>\<open>torch.nonzero\<close> reports it.
\<close>

fun unravel :: "nat list \<Rightarrow> nat \<Rightarrow> nat list" where
  "unravel [] q = []"
| "unravel (s # ss) q = (q div prod_list ss) # unravel ss (q mod prod_list ss)"

text \<open>
  \<^verbatim>\<open>RadiusGraph._radius_graph\<close>:
  \<^verbatim>\<open>torch.nonzero(dist <= r, as_tuple=False).t()\<close> lists, in row-major order, the
  multi-indices of the entries of \<open>dist\<close> that are at most \<open>r\<close>, one per column.
\<close>

definition radius_graph :: "tensor \<Rightarrow> real \<Rightarrow> error + tensor" where
  "radius_graph points r =
     (case cdist points of
        Inl e \<Rightarrow> Inl e
      | Inr dist' \<Rightarrow>
          (let hits = filter (\<lambda>q. elems dist' ! q \<le> r) [0..<length (elems dist')];
               coords = map (unravel (shape dist')) hits
           in Inr (Tensor [ndim dist', length hits]
                     (concat (map (\<lambda>d. map (\<lambda>c. real (c ! d)) coords) [0..<ndim dist'])))))"

text \<open>
  The same builder on a Python value and a radius that may be \<^verbatim>\<open>None\<close> (the default
  of \<^verbatim>\<open>TemporalGraph\<close>): \<^verbatim>\<open>cdist\<close> needs a tensor, and the comparison \<^verbatim>\<open>dist <= None\<close>
  raises \<^verbatim>\<open>TypeError\<close>.
\<close>

definition radius_graph_tensor :: "tensor \<Rightarrow> real option \<Rightarrow> error + pyval" where
  "radius_graph_tensor points r =
     (case cdist points of
        Inl e \<Rightarrow> Inl e
      | Inr dist' \<Rightarrow>
          (case r of
             None \<Rightarrow> Inl TypeError
           | Some r' \<Rightarrow>
               (case radius_graph points r' of
                  Inl e \<Rightarrow> Inl e
                | Inr edge_index \<Rightarrow> Inr (PTensor edge_index))))"

fun radius_graph_py :: "pyval \<Rightarrow> real option \<Rightarrow> error + pyval" where
  "radius_graph_py (PTensor points) r = radius_graph_tensor points r"
| "radius_graph_py (PLabelTensor points) r = radius_graph_tensor points r"
| "radius_graph_py v r = Inl TypeError"





subsection \<open>\<^verbatim>\<open>TemporalGraph.__init__\<close>\<close>

text \<open>\<^verbatim>\<open>_check_time_consistency\<close>.\<close>

definition check_time_consistency :: "pyval \<Rightarrow> pyval \<Rightarrow> error + unit" where
  "check_time_consistency pos times' =
     (case py_len pos of
        Inl e \<Rightarrow> Inl e
      | Inr n \<Rightarrow>
          (case py_len times' of
             Inl e \<Rightarrow> Inl e
           | Inr m \<Rightarrow> if n \<noteq> m then Inl ValueError else Inr ()))"

text \<open>
  The statement \<^verbatim>\<open>if edge_index is None: edge_index = [_radius_graph(p, r) for p in pos]\<close>.
\<close>

definition temporal_edge_index :: "pyval \<Rightarrow> pyval \<Rightarrow> real option \<Rightarrow> error + pyval" where
  "temporal_edge_index pos edge_index r =
     (if edge_index = PNone then
        (case py_iter pos of
           Inl e \<Rightarrow> Inl e
         | Inr ps \<Rightarrow>
             (case map_err (\<lambda>p. radius_graph_py p r) ps of
                Inl e \<Rightarrow> Inl e
              | Inr es \<Rightarrow> Inr (PList es)))
      else Inr edge_index)"

text \<open>
  The constructor: normalise the inputs, print \<^verbatim>\<open>len(pos)\<close>, build the edge indices
  with the radius rule when none are given, create the dictionary \<^verbatim>\<open>{'t': t}\<close>, check
  the lengths, and call \<^verbatim>\<open>Graph.__init__\<close> with that dictionary.
\<close>

definition TemporalGraph_init ::
  "(pyval \<Rightarrow> error + pyval) \<Rightarrow> (pyval \<Rightarrow> pyval \<Rightarrow> pyval \<Rightarrow> error + pyval) \<Rightarrow>
   pyval \<Rightarrow> pyval \<Rightarrow> pyval \<Rightarrow> pyval \<Rightarrow> pyval \<Rightarrow> bool \<Rightarrow> bool \<Rightarrow> real option \<Rightarrow> world \<Rightarrow>
   (error + data list) \<times> world"
where
  "TemporalGraph_init to_undirected default_build_edge_attr
      x pos t edge_index edge_attr build_edge_attr undirected r w =
     (case check_input_consistency x pos edge_index of
        (x1, pos1, edge_index1) \<Rightarrow>
     (case py_len pos1 of
        Inl e \<Rightarrow> (Inl e, w)
      | Inr n \<Rightarrow>
     (let w1 = w\<lparr>printed := printed w @ [n]\<rparr> in
      case temporal_edge_index pos1 edge_index1 r of
        Inl e \<Rightarrow> (Inl e, w1)
      | Inr edge_index2 \<Rightarrow>
     (let a = length (heap w1);
          w2 = w1\<lparr>heap := heap w1 @ [[(''t'', t)]]\<rparr> in
      case check_time_consistency pos1 t of
        Inl e \<Rightarrow> (Inl e, w2)
      | Inr u \<Rightarrow>
          Graph_init to_undirected default_build_edge_attr
            x1 pos1 edge_index2 edge_attr build_edge_attr undirected None (DictRef a) w2))))"

subsection \<open>What the specification says, in its own words\<close>




section \<open>Properties of the PINN solver interface\<close>

lemma py_sum_sum_list: "py_sum xs = sum_list xs"
proof -
  have "foldl (+) a xs = a + sum_list xs" for a :: real
    by (induction xs arbitrary: a) simp_all
  then show ?thesis by (simp add: py_sum_def)
qed

lemma condition_loop_doubles:
  "spec_losses ld lp conds batch = Inr ls \<Longrightarrow>
   condition_loop ld lp conds batch acc = Inr (acc @ concat (map (\<lambda>l. [l, l]) ls))"
proof (induction batch arbitrary: acc ls)
  case Nil
  then show ?case by simp
next
  case (Cons b batch)
  obtain name points where b: "b = (name, points)" by (cases b)
  from Cons.prems show ?case
    unfolding b
    by (auto simp: Let_def Cons.IH split: if_splits sum.splits)
qed

lemma training_step_loss_doubled:
  assumes "spec_losses ld lp (conditions (problem s)) batch = Inr ls"
    and "fst (training_step ld lp s batch) = Inr loss"
  shows "loss = 2 * sum_list ls"
proof -
  have "sum_list (concat (map (\<lambda>l. [l, l]) ls)) = 2 * sum_list ls" for ls :: "real list"
    by (induction ls) simp_all
  with assms show ?thesis
    by (auto simp: training_step_def condition_loop_doubles py_sum_sum_list Let_def
             split: sum.splits prod.splits)
qed

text \<open>
  Claim C1.  The claim says that the loss returned by \<^verbatim>\<open>training_step\<close> is the sum of
  the per-condition losses, each counted once, so that a data condition of loss 1 and a
  physics condition of loss 2 give 3.  On that batch the step returns 6: every
  condition's loss is appended to \<^verbatim>\<open>condition_loss\<close> twice, once in its branch and once
  after the \<^verbatim>\<open>if\<close>.
\<close>

theorem training_step_counts_each_loss_twice:
  "fst (training_step (\<lambda>i out. 1) (\<lambda>i eq. 2)
          (PINNInterface_init
             \<lparr>conditions = [(''phys'', ())], is_inverse = False,
              unknown_parameters = [], range' = []\<rparr>)
          [(''data'', [(''input_points'', ()), (''output_points'', ())]),
           (''phys'', [(''input_points'', ())])])
   = Inr 6"
  by (simp add: training_step_def PINNInterface_init_def call_clamp_params_def
      dict_has_def dict_get_def py_sum_def log_def Let_def)















lemma training_step_clamps_before_log:
  assumes "training_step ld lp s batch = (Inr loss, s')"
  shows "trace s' = trace s @ [ClampCall, LogCall ''train_loss'' loss]"
  using assms
  by (auto simp: training_step_def call_clamp_params_def clamp_inverse_problem_params_def
        log_def Let_def split: sum.splits prod.splits clamp_hook.splits option.splits)

lemma validation_step_never_clamps:
  "params (snd (validation_step ld lp s batch)) = params s \<and>
   ClampCall \<notin> set (drop (length (trace s)) (trace (snd (validation_step ld lp s batch))))"
  by (auto simp: validation_step_def log_def Let_def split: sum.splits)

text \<open>
  Claim C2.  The claim says that the clamp hook is called in every training step and in
  every validation step, after the conditions and before the loss is logged.
  \<^verbatim>\<open>training_step\<close> does so (\<open>training_step_clamps_before_log\<close>);
  \<^verbatim>\<open>validation_step\<close> never calls the hook (\<open>validation_step_never_clamps\<close>),
  although it keeps the comment that announces the call.  For an inverse problem with
  the parameter \<open>mu = 5\<close> and the range \<open>(0, 1)\<close>, a validation step logs the loss
  with \<open>mu\<close> still 5 and no call of the hook, where a training step on the same batch
  calls the hook first and leaves \<open>mu = 1\<close>.
\<close>

theorem validation_step_does_not_clamp:
  "params (snd (validation_step (\<lambda>i out. 1) (\<lambda>i eq. 2)
      (PINNInterface_init \<lparr>conditions = [], is_inverse = True,
          unknown_parameters = [(''mu'', [5])], range' = [(''mu'', (0, 1))]\<rparr>)
      [(''data'', [(''input_points'', ()), (''output_points'', ())])]))
     = Some [(''mu'', [5])]
   \<and> trace (snd (validation_step (\<lambda>i out. 1) (\<lambda>i eq. 2)
      (PINNInterface_init \<lparr>conditions = [], is_inverse = True,
          unknown_parameters = [(''mu'', [5])], range' = [(''mu'', (0, 1))]\<rparr>)
      [(''data'', [(''input_points'', ()), (''output_points'', ())])]))
     = [LogCall ''val_loss'' 2]
   \<and> params (snd (training_step (\<lambda>i out. 1) (\<lambda>i eq. 2)
      (PINNInterface_init \<lparr>conditions = [], is_inverse = True,
          unknown_parameters = [(''mu'', [5])], range' = [(''mu'', (0, 1))]\<rparr>)
      [(''data'', [(''input_points'', ()), (''output_points'', ())])]))
     = Some [(''mu'', [1])]
   \<and> trace (snd (training_step (\<lambda>i out. 1) (\<lambda>i eq. 2)
      (PINNInterface_init \<lparr>conditions = [], is_inverse = True,
          unknown_parameters = [(''mu'', [5])], range' = [(''mu'', (0, 1))]\<rparr>)
      [(''data'', [(''input_points'', ()), (''output_points'', ())])]))
     = [ClampCall, LogCall ''train_loss'' 2]"
  by (simp add: validation_step_def training_step_def PINNInterface_init_def
      call_clamp_params_def clamp_inverse_problem_params_def clamp_def
      dict_has_def dict_get_def py_sum_def log_def Let_def)

section \<open>Properties of the graph constructors\<close>

text \<open>
  Claim C3.  The claim says that a list \<^verbatim>\<open>edge_attr\<close> of length \<open>data_len\<close> is used as
  given, so that record \<open>i\<close> receives its \<open>i\<close>-th tensor.
  \<^verbatim>\<open>_check_and_build_edge_attr\<close> returns \<^verbatim>\<open>[edge_attr] * data_len\<close> for a list as well:
  with two graphs and the list of the attributes 7 and 8, both records receive the whole
  list.
\<close>

theorem edge_attr_list_is_replicated:
  "fst (Graph_init Inr (\<lambda>x p e. Inr e)
          (PList [PTensor (Tensor [1, 1] [1]), PTensor (Tensor [1, 1] [2])])
          (PList [PTensor (Tensor [1, 1] [3]), PTensor (Tensor [1, 1] [4])])
          (PList [PTensor (Tensor [2, 1] [0, 0]), PTensor (Tensor [2, 1] [0, 0])])
          (PList [PTensor (Tensor [1, 1] [7]), PTensor (Tensor [1, 1] [8])])
          False False None NoParams \<lparr>heap = [], warned = [], printed = []\<rparr>)
   = Inr [Data (PTensor (Tensor [1, 1] [1])) (PTensor (Tensor [1, 1] [3]))
            (PTensor (Tensor [2, 1] [0, 0]))
            (Some (PList [PTensor (Tensor [1, 1] [7]), PTensor (Tensor [1, 1] [8])])) [],
          Data (PTensor (Tensor [1, 1] [2])) (PTensor (Tensor [1, 1] [4]))
            (PTensor (Tensor [2, 1] [0, 0]))
            (Some (PList [PTensor (Tensor [1, 1] [7]), PTensor (Tensor [1, 1] [8])])) []]"
  by (simp add: Graph_init_def check_input_consistency_def check_len_consistency_def
      prepare_lists_def make_undirected_def check_and_build_edge_attr_def build_graph_list_def
      keyword_clash_def ndim_def Let_def)

lemma prepare_lists_TypeError:
  "\<not> is_list x \<Longrightarrow> \<not> is_list pos \<Longrightarrow> \<not> (is_tensor x \<and> is_tensor pos) \<Longrightarrow>
   prepare_lists x pos edge_index data_len = Inl TypeError"
  by (auto simp: prepare_lists_def)

text \<open>
  Claim C4.  The claim says that every pair \<open>(x, pos)\<close> outside the four supported
  combinations makes the constructor raise \<^verbatim>\<open>TypeError\<close>.  The last arm of the chain
  raises only when neither is a list (\<open>prepare_lists_TypeError\<close>); a list \<^verbatim>\<open>x\<close> with a
  tuple \<^verbatim>\<open>pos\<close> passes every arm, and the constructor returns a batch of one record.
\<close>

theorem list_x_with_tuple_pos_is_accepted:
  "fst (Graph_init Inr (\<lambda>x p e. Inr e)
          (PList [PTensor (Tensor [1, 1] [1])])
          (PTuple [PTensor (Tensor [1, 1] [3])])
          (PList [PTensor (Tensor [2, 1] [0, 0])])
          PNone False False None NoParams \<lparr>heap = [], warned = [], printed = []\<rparr>)
   = Inr [Data (PTensor (Tensor [1, 1] [1])) (PTensor (Tensor [1, 1] [3]))
            (PTensor (Tensor [2, 1] [0, 0])) None []]"
  by (simp add: Graph_init_def check_input_consistency_def check_len_consistency_def
      prepare_lists_def make_undirected_def check_and_build_edge_attr_def build_graph_list_def
      keyword_clash_def ndim_def Let_def)


lemma map_err_length: "map_err f xs = Inr ys \<Longrightarrow> length ys = length xs"
  by (induction xs arbitrary: ys) (auto split: sum.splits)

lemma graph_loop_length:
  "graph_loop i zs ea ap acc = Inr g \<Longrightarrow> length g = length acc + length zs"
proof (induction zs arbitrary: i acc ea)
  case Nil
  then show ?case by simp
next
  case (Cons z zs)
  obtain x' p' e' where z: "z = (x', p', e')" by (cases z)
  from Cons.prems show ?case
    unfolding z
    by (auto simp: Let_def split: sum.splits option.splits if_splits dest: Cons.IH)
qed

lemma graph_loop_plain:
  "graph_loop i zs None [] acc
     = Inr (acc @ map (\<lambda>(x', pos', edge_index'). Data (unwrap_label x') pos' edge_index' None []) zs)"
  by (induction zs arbitrary: i acc) (auto simp: keyword_clash_def)

lemma build_graph_list_length:
  assumes "build_graph_list (PList xs) (PList ps) (PList es) ea ap = Inr g"
  shows "length g = min (length xs) (min (length ps) (length es))"
  using assms by (auto simp: build_graph_list_def dest!: graph_loop_length)

lemma make_undirected_list:
  assumes "make_undirected tu u (PList es) = Inr ei"
  shows "\<exists>es'. ei = PList es' \<and> length es' = length es"
  using assms by (auto simp: make_undirected_def split: if_splits sum.splits dest: map_err_length)

lemma prepare_lists_lists:
  "prepare_lists (PList xs) (PList ps) ei n = Inr (PList xs, PList ps, ei)"
  by (simp add: prepare_lists_def)

lemma Graph_init_lists_length:
  assumes "Graph_init tu bea (PList xs) (PList ps) ei ea b u c ap w = (Inr g, w')"
    and "split3d ei = PList es" and "length es = length xs" and "length ps = length xs"
  shows "length g = length xs"
proof -
  from assms(1) obtain ei2 ea' ap' where
    u: "make_undirected tu u (PList es) = Inr ei2" and
    g: "build_graph_list (PList xs) (PList ps) ei2 ea' ap' = Inr g"
    by (auto simp: Graph_init_def check_input_consistency_def assms(2) prepare_lists_lists
          Let_def split: sum.splits prod.splits)
  from make_undirected_list [OF u] obtain es' where "ei2 = PList es'" "length es' = length es"
    by blast
  with g assms(3,4) show ?thesis by (simp add: build_graph_list_length)
qed

lemma Graph_init_lists_mismatch:
  assumes "length xs \<noteq> length ps"
  shows "Graph_init tu bea (PList xs) (PList ps) ei ea b u c ap w = (Inl ValueError, w)"
  using assms by (simp add: Graph_init_def check_input_consistency_def check_len_consistency_def)

lemma Graph_init_lists_plain:
  assumes "length ps = length xs" and "split3d ei = PList es"
  shows "Graph_init tu bea (PList xs) (PList ps) ei PNone False False c NoParams w
         = (Inr (map (\<lambda>(x', pos', edge_index'). Data (unwrap_label x') pos' edge_index' None [])
                   (zip xs (zip ps es))),
            w\<lparr>heap := heap w @ [[]]\<rparr>)"
  using assms
  by (simp add: Graph_init_def check_input_consistency_def check_len_consistency_def
      prepare_lists_lists make_undirected_def check_and_build_edge_attr_def
      build_graph_list_def graph_loop_plain Let_def)

text \<open>
  Claim C5.  For lists \<open>x\<close> and \<open>pos\<close> of different lengths the constructor raises
  \<^verbatim>\<open>ValueError\<close> (the length-mismatch error) at the length check, with the world
  untouched and no record built.  For lists of the same length \<open>L\<close> and an edge index
  that is (after the split of a 3-D tensor) a list of length \<open>L\<close>, every batch the
  constructor returns has exactly \<open>L\<close> records, and it does return one when no edge
  attributes and no additional parameters are asked for.
\<close>

theorem Graph_init_equal_length_lists:
  "(length xs \<noteq> length ps \<longrightarrow>
      Graph_init tu bea (PList xs) (PList ps) ei ea b u c ap w = (Inl ValueError, w))
   \<and> (length xs = length ps \<longrightarrow> split3d ei = PList es \<longrightarrow> length es = length xs \<longrightarrow>
        (\<forall>g w'. Graph_init tu bea (PList xs) (PList ps) ei ea b u c ap w = (Inr g, w')
                  \<longrightarrow> length g = length xs)
        \<and> (\<exists>g w'. Graph_init tu bea (PList xs) (PList ps) ei PNone False False c NoParams w
                     = (Inr g, w') \<and> length g = length xs))"
proof (intro conjI impI allI)
  assume "length xs \<noteq> length ps"
  then show "Graph_init tu bea (PList xs) (PList ps) ei ea b u c ap w = (Inl ValueError, w)"
    by (rule Graph_init_lists_mismatch)
next
  fix g w'
  assume "length xs = length ps" "split3d ei = PList es" "length es = length xs"
    "Graph_init tu bea (PList xs) (PList ps) ei ea b u c ap w = (Inr g, w')"
  then show "length g = length xs" using Graph_init_lists_length by metis
next
  assume a: "length xs = length ps" "split3d ei = PList es" "length es = length xs"
  then have "Graph_init tu bea (PList xs) (PList ps) ei PNone False False c NoParams w
         = (Inr (map (\<lambda>(x', pos', edge_index'). Data (unwrap_label x') pos' edge_index' None [])
                   (zip xs (zip ps es))),
            w\<lparr>heap := heap w @ [[]]\<rparr>)"
    by (intro Graph_init_lists_plain) simp_all
  with a show "\<exists>g w'. Graph_init tu bea (PList xs) (PList ps) ei PNone False False c NoParams w
                     = (Inr g, w') \<and> length g = length xs"
    by simp
qed









text \<open>
  The theorem at a list of one feature tensor against two positions, and at two against
  two.
\<close>

theorem Graph_init_equal_length_lists_witness:
  "Graph_init Inr (\<lambda>x p e. Inr e)
      (PList [PTensor (Tensor [1, 1] [1])])
      (PList [PTensor (Tensor [1, 1] [3]), PTensor (Tensor [1, 1] [4])])
      (PList [PTensor (Tensor [2, 1] [0, 0])]) PNone False False None NoParams
      \<lparr>heap = [], warned = [], printed = []\<rparr>
     = (Inl ValueError, \<lparr>heap = [], warned = [], printed = []\<rparr>)
   \<and> (\<exists>g w'. Graph_init Inr (\<lambda>x p e. Inr e)
          (PList [PTensor (Tensor [1, 1] [1]), PTensor (Tensor [1, 1] [2])])
          (PList [PTensor (Tensor [1, 1] [3]), PTensor (Tensor [1, 1] [4])])
          (PList [PTensor (Tensor [2, 1] [0, 0]), PTensor (Tensor [2, 1] [0, 0])])
          PNone False False None NoParams \<lparr>heap = [], warned = [], printed = []\<rparr>
          = (Inr g, w') \<and> length g = 2)"
  using Graph_init_equal_length_lists
          [where xs = "[PTensor (Tensor [1, 1] [1])]"
             and ps = "[PTensor (Tensor [1, 1] [3]), PTensor (Tensor [1, 1] [4])]"
             and tu = Inr and bea = "\<lambda>x p e. Inr e"
             and ei = "PList [PTensor (Tensor [2, 1] [0, 0])]"
             and ea = PNone and b = False and u = False and c = None and ap = NoParams
             and w = "\<lparr>heap = [], warned = [], printed = []\<rparr>"]
        Graph_init_equal_length_lists
          [where xs = "[PTensor (Tensor [1, 1] [1]), PTensor (Tensor [1, 1] [2])]"
             and ps = "[PTensor (Tensor [1, 1] [3]), PTensor (Tensor [1, 1] [4])]"
             and tu = Inr and bea = "\<lambda>x p e. Inr e"
             and ei = "PList [PTensor (Tensor [2, 1] [0, 0]), PTensor (Tensor [2, 1] [0, 0])]"
             and es = "[PTensor (Tensor [2, 1] [0, 0]), PTensor (Tensor [2, 1] [0, 0])]"
             and ea = PNone and b = False and u = False and ap = NoParams
             and c = None and w = "\<lparr>heap = [], warned = [], printed = []\<rparr>"]
  by (auto simp: numeral_2_eq_2)



lemma temporal_edge_index_given:
  "edge_index \<noteq> PNone \<Longrightarrow> temporal_edge_index pos edge_index r = Inr edge_index"
  by (simp add: temporal_edge_index_def)

text \<open>
  Claim C8, as amended.  When \<^verbatim>\<open>len(pos)\<close> and \<^verbatim>\<open>len(t)\<close> exist and the edge-index
  stage completes (an edge index is given, \<open>temporal_edge_index_given\<close>, or the radius
  rule succeeds on every position): with different lengths the constructor raises
  \<^verbatim>\<open>ValueError\<close> (the length-mismatch error) without calling \<^verbatim>\<open>Graph.__init__\<close>;
  with equal lengths it is the call of \<^verbatim>\<open>Graph.__init__\<close> on the normalised inputs
  with the new dictionary \<^verbatim>\<open>{'t': t}\<close> as \<^verbatim>\<open>additional_params\<close>.
\<close>

theorem TemporalGraph_checks_lengths_then_delegates:
  assumes "check_input_consistency x pos edge_index = (x', pos', edge_index')"
    and "temporal_edge_index pos' edge_index' r = Inr edge_index''"
    and "py_len pos' = Inr n" and "py_len t = Inr m"
  shows "(n \<noteq> m \<longrightarrow>
            TemporalGraph_init tu bea x pos t edge_index ea b u r w
              = (Inl ValueError,
                 w\<lparr>printed := printed w @ [n], heap := heap w @ [[(''t'', t)]]\<rparr>))
       \<and> (n = m \<longrightarrow>
            TemporalGraph_init tu bea x pos t edge_index ea b u r w
              = Graph_init tu bea x' pos' edge_index'' ea b u None (DictRef (length (heap w)))
                  (w\<lparr>printed := printed w @ [n], heap := heap w @ [[(''t'', t)]]\<rparr>))"
  using assms by (simp add: TemporalGraph_init_def check_time_consistency_def Let_def)

text \<open>The theorem at one position, no times and a given edge index.\<close>

theorem TemporalGraph_checks_lengths_witness:
  "TemporalGraph_init Inr (\<lambda>x p e. Inr e)
      (PList [PTensor (Tensor [1, 1] [1])]) (PList [PTensor (Tensor [1, 1] [3])])
      (PList []) (PList [PTensor (Tensor [2, 1] [0, 0])]) PNone False False None
      \<lparr>heap = [], warned = [], printed = []\<rparr>
   = (Inl ValueError, \<lparr>heap = [[(''t'', PList [])]], warned = [], printed = [1]\<rparr>)"
  using TemporalGraph_checks_lengths_then_delegates
          [where x = "PList [PTensor (Tensor [1, 1] [1])]"
             and pos = "PList [PTensor (Tensor [1, 1] [3])]"
             and edge_index = "PList [PTensor (Tensor [2, 1] [0, 0])]"
             and x' = "PList [PTensor (Tensor [1, 1] [1])]"
             and pos' = "PList [PTensor (Tensor [1, 1] [3])]"
             and edge_index' = "PList [PTensor (Tensor [2, 1] [0, 0])]"
             and edge_index'' = "PList [PTensor (Tensor [2, 1] [0, 0])]"
             and r = None and n = 1 and m = 0 and t = "PList []"
             and tu = Inr and bea = "\<lambda>x p e. Inr e" and ea = PNone and b = False and u = False
             and w = "\<lparr>heap = [], warned = [], printed = []\<rparr>"]
  by (simp add: check_input_consistency_def temporal_edge_index_def)

text \<open>
  Claim C8 as stated covers every construction with different lengths.  With no edge
  index and the default \<^verbatim>\<open>r=None\<close>, one position and no times, the radius rule runs
  before the length check and its comparison \<^verbatim>\<open>dist <= None\<close> raises \<^verbatim>\<open>TypeError\<close>.
\<close>

theorem TemporalGraph_default_radius_raises_TypeError:
  "fst (TemporalGraph_init Inr (\<lambda>x p e. Inr e)
      (PList [PTensor (Tensor [1, 1] [1])]) (PList [PTensor (Tensor [1, 1] [3])])
      (PList []) PNone PNone False False None
      \<lparr>heap = [], warned = [], printed = []\<rparr>)
   = Inl TypeError"
  by (simp add: TemporalGraph_init_def check_input_consistency_def temporal_edge_index_def
        radius_graph_tensor_def cdist_def ndim_def Let_def)

section \<open>Properties of the topology builders\<close>


lemma row_dist_nonneg: "0 \<le> row_dist e M a b"
  unfolding row_dist_def by (intro real_sqrt_ge_zero sum_list_nonneg) auto






























end
